theory Spec2Isabelle
  imports Main
begin

section \<open>The thread model of \<open>src/models/thread.ts\<close>\<close>

text \<open>
  The class \<open>Thread\<close> keeps a private timeline of reply events, a reply counter, a
  pointer to the last event and a participation flag. Its methods mutate the thread, the
  room it belongs to and the event objects that both share. The embedding threads one
  record, \<open>world\<close>, through every method: the static fields of the class, the two heaps
  (event objects and their raw payloads), the fields of the thread instance, the part of
  the room the thread reads and writes, and the notifications sent so far.
\<close>

subsection \<open>Feature support and namespaced identifiers\<close>

text \<open>\<open>enum FeatureSupport { None = 0, Experimental = 1, Stable = 2 }\<close>; the first
  constructor is renamed, \<open>None\<close> being the constructor of \<open>option\<close>.\<close>

datatype FeatureSupport = NoneSupport | Experimental | Stable

fun determineFeatureSupport :: "bool \<Rightarrow> bool \<Rightarrow> FeatureSupport" where
  "determineFeatureSupport stable_flag unstable_flag =
     (if stable_flag then Stable
      else if unstable_flag then Experimental
      else NoneSupport)"

text \<open>\<open>if (!Thread.hasServerSideSupport)\<close>: the enum's numeric value as a condition;
  only \<open>None = 0\<close> is falsy.\<close>

fun truthy :: "FeatureSupport \<Rightarrow> bool" where
  "truthy NoneSupport = False"
| "truthy Experimental = True"
| "truthy Stable = True"

text \<open>
  Modelled from the spec: the class \<open>ServerControlledNamespacedValue\<close> of
  \<open>src/NamespacedValue.ts\<close> is imported by thread.ts and is not among the sources. The
  spec (4.1, 3) gives it two spellings of one identifier, a stable and an unstable one,
  and a bias: once biased toward the unstable spelling, a lookup returns that one.
\<close>

record ServerControlledNamespacedValue =
  stable :: string
  unstable :: string
  preferUnstable :: bool

definition name :: "ServerControlledNamespacedValue \<Rightarrow> string" where
  "name v = (if preferUnstable v then unstable v else stable v)"

definition setPreferUnstable ::
  "bool \<Rightarrow> ServerControlledNamespacedValue \<Rightarrow> ServerControlledNamespacedValue" where
  "setPreferUnstable b v = v\<lparr>preferUnstable := b\<rparr>"

text \<open>The relation types of \<open>enum RelationType\<close> (\<open>src/@types/event.ts\<close>, not among the
  sources); thread.ts uses \<open>RelationType.Annotation\<close> and \<open>RelationType.Replace\<close>.\<close>

definition RelationType_Annotation :: string where
  "RelationType_Annotation = ''m.annotation''"

definition RelationType_Replace :: string where
  "RelationType_Replace = ''m.replace''"

subsection \<open>Events\<close>

text \<open>
  The raw payload of an event (\<open>MatrixEvent.event\<close>, the wire JSON), with the parts
  thread.ts reads: \<open>event_id\<close>, \<open>sender\<close>, \<open>content["m.relates_to"].rel_type\<close>, whether
  the type is the encrypted one, and \<open>unsigned["m.relations"]\<close>, which maps a relation
  type to its bundled aggregation. For the thread relation the aggregation is an
  \<open>IThreadBundledRelationship\<close>: a count and the latest event, itself a payload.
\<close>

datatype wire =
  Wire (event_id: string) (sender: "string option") (rel_type: "string option")
       (encrypted: bool) (m_relations: "(string \<times> bundled) list")
and bundled =
  Bundled (count: int) (latest_event: wire)

text \<open>\<open>delete payload?.unsigned?.["m.relations"]?.[key]\<close>: removes the key when it is
  there and does nothing otherwise.\<close>

fun delete_relation :: "string \<Rightarrow> wire \<Rightarrow> wire" where
  "delete_relation key (Wire i s r e rels) = Wire i s r e (filter (\<lambda>kv. fst kv \<noteq> key) rels)"

text \<open>
  Modelled from the spec: the class \<open>MatrixEvent\<close> of \<open>src/models/event.ts\<close> is not among
  the sources. An event object holds a reference to its raw payload (\<open>event\<close>, assigned
  by \<open>initialiseThread\<close>), its single current thread association (\<open>setThread\<close>; the spec's
  design notes identify the thread by its id), its \<open>localTimestamp\<close>, its recorded
  thread-root id (\<open>threadRootId\<close>) and the replacement applied to it (\<open>makeReplaced\<close>).
\<close>

record MatrixEvent =
  event :: nat
  thread :: "string option"
  localTimestamp :: int
  threadRootId :: "string option"
  replacingEvent :: "wire option"

subsection \<open>Notifications and collaborators\<close>

datatype notification =
    Thread_Update
  | Thread_NewReply nat
  | Room_TimelineRefresh_room
  | Room_TimelineRefresh_thread

text \<open>The calls made on \<open>timelineSet.relations\<close>, the relation aggregator.\<close>

datatype aggregation = AggregateParentEvent nat | AggregateChildEvent nat

datatype error =
    RoomRequired
  | RequestFailed
  | EventNotInContext
  | TimelineUndefined
  | UnsupportedFunction

subsection \<open>The state\<close>

record world =
  \<comment> \<open>static fields of \<open>Thread\<close> and the exported namespaced values\<close>
  hasServerSideSupport :: FeatureSupport
  hasServerSideListSupport :: FeatureSupport
  prefer_FILTER_RELATED_BY_SENDERS :: bool
  prefer_FILTER_RELATED_BY_REL_TYPES :: bool
  prefer_THREAD_RELATION_TYPE :: bool
  \<comment> \<open>the heaps: raw payloads and event objects, with the next free addresses\<close>
  payloads :: "nat \<Rightarrow> wire"
  objects :: "nat \<Rightarrow> MatrixEvent"
  nextPayload :: nat
  nextEvent :: nat
  \<comment> \<open>\<open>client.getUserId()\<close>, null when there are no credentials\<close>
  userId :: "string option"
  \<comment> \<open>the fields of the thread instance: \<open>threadId\<close> is \<open>this.id\<close>, \<open>timeline\<close> the events of
      the live timeline of \<open>this.timelineSet\<close>, \<open>relations\<close> the calls on its aggregator\<close>
  threadId :: string
  rootEvent :: "nat option"
  lastEvent :: "nat option"
  replyCount :: int
  currentUserParticipated :: bool
  timeline :: "nat list"
  relations :: "aggregation list"
  \<comment> \<open>the room\<close>
  room_threads :: "string set"
  room_liveTimeline :: "nat list"
  room_threadsTimelineSets :: "nat list list"
  \<comment> \<open>notifications sent, oldest first\<close>
  emitted :: "notification list"

definition FILTER_RELATED_BY_SENDERS :: "world \<Rightarrow> ServerControlledNamespacedValue" where
  "FILTER_RELATED_BY_SENDERS s =
     \<lparr>stable = ''related_by_senders'', unstable = ''io.element.relation_senders'',
      preferUnstable = prefer_FILTER_RELATED_BY_SENDERS s\<rparr>"

definition FILTER_RELATED_BY_REL_TYPES :: "world \<Rightarrow> ServerControlledNamespacedValue" where
  "FILTER_RELATED_BY_REL_TYPES s =
     \<lparr>stable = ''related_by_rel_types'', unstable = ''io.element.relation_types'',
      preferUnstable = prefer_FILTER_RELATED_BY_REL_TYPES s\<rparr>"

definition THREAD_RELATION_TYPE :: "world \<Rightarrow> ServerControlledNamespacedValue" where
  "THREAD_RELATION_TYPE s =
     \<lparr>stable = ''m.thread'', unstable = ''io.element.thread'',
      preferUnstable = prefer_THREAD_RELATION_TYPE s\<rparr>"

subsection \<open>Static methods\<close>

definition setServerSideSupport :: "FeatureSupport \<Rightarrow> world \<Rightarrow> world" where
  "setServerSideSupport status s =
     (let s1 = s\<lparr>hasServerSideSupport := status\<rparr>
      in if status \<noteq> Stable
         then s1\<lparr>prefer_FILTER_RELATED_BY_SENDERS :=
                    preferUnstable (setPreferUnstable True (FILTER_RELATED_BY_SENDERS s1)),
                 prefer_FILTER_RELATED_BY_REL_TYPES :=
                    preferUnstable (setPreferUnstable True (FILTER_RELATED_BY_REL_TYPES s1)),
                 prefer_THREAD_RELATION_TYPE :=
                    preferUnstable (setPreferUnstable True (THREAD_RELATION_TYPE s1))\<rparr>
         else s1)"

definition setServerSideListSupport :: "FeatureSupport \<Rightarrow> world \<Rightarrow> world" where
  "setServerSideListSupport status s = s\<lparr>hasServerSideListSupport := status\<rparr>"

subsection \<open>Reading and writing event objects\<close>

definition payload :: "world \<Rightarrow> nat \<Rightarrow> wire" where
  "payload s r = payloads s (event (objects s r))"

definition getId :: "world \<Rightarrow> nat \<Rightarrow> string" where
  "getId s r = event_id (payload s r)"

definition getSender :: "world \<Rightarrow> nat \<Rightarrow> string option" where
  "getSender s r = sender (payload s r)"

text \<open>\<open>event.isRelation(relType)\<close> and, without argument, \<open>event.isRelation()\<close>.\<close>

definition isRelation :: "world \<Rightarrow> nat \<Rightarrow> string \<Rightarrow> bool" where
  "isRelation s r relType = (rel_type (payload s r) = Some relType)"

definition isRelation_any :: "world \<Rightarrow> nat \<Rightarrow> bool" where
  "isRelation_any s r = (rel_type (payload s r) \<noteq> None)"

definition isEncrypted :: "world \<Rightarrow> nat \<Rightarrow> bool" where
  "isEncrypted s r = encrypted (payload s r)"

definition getServerAggregatedRelation :: "world \<Rightarrow> nat \<Rightarrow> string \<Rightarrow> bundled option" where
  "getServerAggregatedRelation s r relType = map_of (m_relations (payload s r)) relType"

definition setThread :: "nat \<Rightarrow> string option \<Rightarrow> world \<Rightarrow> world" where
  "setThread r t s = s\<lparr>objects := (objects s)(r := (objects s r)\<lparr>thread := t\<rparr>)\<rparr>"

definition makeReplaced :: "nat \<Rightarrow> wire \<Rightarrow> world \<Rightarrow> world" where
  "makeReplaced r w s = s\<lparr>objects := (objects s)(r := (objects s r)\<lparr>replacingEvent := Some w\<rparr>)\<rparr>"

text \<open>\<open>delete ev.event?.unsigned?.["m.relations"]?.[key]\<close> writes to the payload object,
  which every event object holding the same payload sees.\<close>

definition delete_aggregated :: "nat \<Rightarrow> string \<Rightarrow> world \<Rightarrow> world" where
  "delete_aggregated r key s =
     s\<lparr>payloads := (payloads s)(event (objects s r) := delete_relation key (payload s r))\<rparr>"

definition emit :: "notification \<Rightarrow> world \<Rightarrow> world" where
  "emit n s = s\<lparr>emitted := emitted s @ [n]\<rparr>"

subsection \<open>The transport and the event mapper\<close>

text \<open>
  What the client answers during one asynchronous operation. \<open>context_request\<close> is the
  reply to
  \<open>GET /rooms/$roomId/context/$eventId\<close>: the request is rejected, or a response arrives
  with or without \<open>event\<close>. \<open>relations_query\<close> is the reply of \<open>client.relations\<close> for
  the replacements of an event: \<open>None\<close> when the promise rejects, else the events found.
  The event mapper (\<open>client.getEventMapper()\<close>, not among the sources) builds an event
  object from a payload; the two fields of the object that it computes and thread.ts
  reads are given by \<open>mapped_localTimestamp\<close> and \<open>mapped_threadRootId\<close>.
\<close>

datatype context_result = Rejected | Response "wire option"

record transport =
  context_request :: "string \<Rightarrow> context_result"
  relations_query :: "string \<Rightarrow> wire list option"
  mapped_localTimestamp :: "wire \<Rightarrow> int"
  mapped_threadRootId :: "wire \<Rightarrow> string option"

text \<open>Modelled from the spec: the mapper is "a mapper from wire envelope to a live event
  object, applied to every fetched envelope" (6); it is not among the sources. Here it
  allocates a new payload and a new event object without thread association.\<close>

definition mapper :: "transport \<Rightarrow> wire \<Rightarrow> world \<Rightarrow> nat \<times> world" where
  "mapper c w s =
     (nextEvent s,
      s\<lparr>payloads := (payloads s)(nextPayload s := w),
        objects := (objects s)(nextEvent s :=
          \<lparr>event = nextPayload s, thread = None,
           localTimestamp = mapped_localTimestamp c w,
           threadRootId = mapped_threadRootId c w,
           replacingEvent = None\<rparr>),
        nextPayload := Suc (nextPayload s),
        nextEvent := Suc (nextEvent s)\<rparr>)"

text \<open>\<open>fetchEditsWhereNeeded(...events)\<close>: for each encrypted event that is not itself a
  relation, ask for one replacement and apply the first one found; a rejected request is
  logged and ignored.\<close>

definition fetchEdit :: "transport \<Rightarrow> nat \<Rightarrow> world \<Rightarrow> world" where
  "fetchEdit c r s =
     (if isRelation_any s r then s
      else case relations_query c (getId s r) of
             None \<Rightarrow> s
           | Some [] \<Rightarrow> s
           | Some (w # ws) \<Rightarrow> makeReplaced r w s)"

definition fetchEditsWhereNeeded :: "transport \<Rightarrow> nat list \<Rightarrow> world \<Rightarrow> world" where
  "fetchEditsWhereNeeded c rs s = fold (fetchEdit c) (filter (isEncrypted s) rs) s"

subsection \<open>The thread's timeline set\<close>

text \<open>
  Modelled from the spec: \<open>EventTimelineSet\<close> (\<open>src/models/event-timeline-set.ts\<close>) is not
  among the sources. The thread's private timeline is "an ordered, append/prepend-capable
  sequence of reply events" (3) whose lookup by id "checks the private timeline index"
  (4.2). The thread only ever uses the live timeline of its set, the list \<open>timeline\<close>.
\<close>

definition timelineSet_findEventById :: "world \<Rightarrow> string \<Rightarrow> nat option" where
  "timelineSet_findEventById s eventId = find (\<lambda>r. getId s r = eventId) (timeline s)"

definition timelineSet_addEventToTimeline :: "nat \<Rightarrow> bool \<Rightarrow> world \<Rightarrow> world" where
  "timelineSet_addEventToTimeline r toStartOfTimeline s =
     s\<lparr>timeline := (if toStartOfTimeline then r # timeline s else timeline s @ [r])\<rparr>"

text \<open>\<open>timelineSet.relations.aggregateParentEvent(event)\<close> followed by
  \<open>aggregateChildEvent(event, timelineSet)\<close>: the aggregator records both calls.\<close>

definition aggregate :: "nat \<Rightarrow> world \<Rightarrow> world" where
  "aggregate r s = s\<lparr>relations := relations s @ [AggregateParentEvent r, AggregateChildEvent r]\<rparr>"

subsection \<open>Lookups of the thread\<close>

definition findEventById :: "world \<Rightarrow> string \<Rightarrow> nat option" where
  "findEventById s eventId =
     (case lastEvent s of
        Some l \<Rightarrow> if getId s l = eventId then Some l else timelineSet_findEventById s eventId
      | None \<Rightarrow> timelineSet_findEventById s eventId)"

text \<open>The getter \<open>events\<close> is \<open>this.liveTimeline.getEvents()\<close>, and the getter
  \<open>timeline\<close> is \<open>this.events\<close>: both are the field \<open>timeline\<close> of the state.\<close>

definition events :: "world \<Rightarrow> nat list" where
  "events s = timeline s"

text \<open>\<open>lastReply(matches)\<close> scans \<open>this.events\<close> from the newest end backward.\<close>

definition lastReply :: "(nat \<Rightarrow> bool) \<Rightarrow> world \<Rightarrow> nat option" where
  "lastReply matches s = find matches (rev (events s))"

definition has :: "world \<Rightarrow> string \<Rightarrow> bool" where
  "has s eventId = (timelineSet_findEventById s eventId \<noteq> None)"

definition length_thread :: "world \<Rightarrow> int" where
  "length_thread s = replyCount s"

definition replyToEvent :: "world \<Rightarrow> nat option" where
  "replyToEvent s = (case lastEvent s of Some l \<Rightarrow> Some l | None \<Rightarrow> lastReply (\<lambda>_. True) s)"

definition hasCurrentUserParticipated :: "world \<Rightarrow> bool" where
  "hasCurrentUserParticipated s = currentUserParticipated s"

definition addReceipt :: "nat \<Rightarrow> bool \<Rightarrow> world \<Rightarrow> error + world" where
  "addReceipt r synthetic s = Inl UnsupportedFunction"

subsection \<open>Adding events\<close>

definition addEventToTimeline :: "nat \<Rightarrow> bool \<Rightarrow> world \<Rightarrow> world" where
  "addEventToTimeline r toStartOfTimeline s =
     (if findEventById s (getId s r) = None
      then timelineSet_addEventToTimeline r toStartOfTimeline s
      else s)"

text \<open>\<open>event.getSender() === this.client.getUserId()\<close>: the sender is a string or
  undefined, the user id a string or null, and strict equality holds for two equal
  strings only.\<close>

definition sentByCurrentUser :: "world \<Rightarrow> nat \<Rightarrow> bool" where
  "sentByCurrentUser s r =
     (case getSender s r of
        None \<Rightarrow> False
      | Some a \<Rightarrow> (case userId s of None \<Rightarrow> False | Some b \<Rightarrow> a = b))"

text \<open>\<open>event.localTimestamp > this.lastReply()?.localTimestamp\<close>: with no last reply the
  right-hand side is undefined and the comparison is false.\<close>

definition newerThanLastReply :: "world \<Rightarrow> nat \<Rightarrow> bool" where
  "newerThanLastReply s r =
     (case lastReply (\<lambda>_. True) s of
        None \<Rightarrow> False
      | Some l \<Rightarrow> localTimestamp (objects s r) > localTimestamp (objects s l))"

text \<open>The end of \<open>addEvent\<close> (the reply counter and the notification), reached by every
  branch but the one that returns early.\<close>

definition countAndNotify :: "nat \<Rightarrow> bool \<Rightarrow> world \<Rightarrow> world" where
  "countAndNotify r emitFlag s =
     (let s1 = (if (\<not> truthy (hasServerSideSupport s) \<or> rootEvent s = None)
                   \<and> isRelation s r (name (THREAD_RELATION_TYPE s))
                then s\<lparr>replyCount := replyCount s + 1\<rparr>
                else s)
      in if emitFlag then emit (Thread_NewReply r) s1 else s1)"

text \<open>
  \<open>addEvent(event, toStartOfTimeline, emit)\<close>. The calls \<open>client.decryptEventIfNeeded\<close>
  and \<open>this.fetchEditsWhereNeeded(event)\<close> are not awaited: what they change, they change
  after \<open>addEvent\<close> has returned (see \<open>FetchEdits\<close> below).
\<close>

definition addEvent :: "nat \<Rightarrow> bool \<Rightarrow> bool \<Rightarrow> world \<Rightarrow> world" where
  "addEvent r toStartOfTimeline emitFlag s =
     (let s1 = setThread r (Some (threadId s)) s;
          s2 = (if \<not> currentUserParticipated s1 \<and> sentByCurrentUser s1 r
                then s1\<lparr>currentUserParticipated := True\<rparr>
                else s1)
      in if \<not> truthy (hasServerSideSupport s2)
         then countAndNotify r emitFlag (addEventToTimeline r toStartOfTimeline s2)
         else if \<not> toStartOfTimeline \<and> newerThanLastReply s2 r
         then countAndNotify r emitFlag (addEventToTimeline r False s2)
         else if isRelation s2 r RelationType_Annotation \<or> isRelation s2 r RelationType_Replace
         then aggregate r s2
         else countAndNotify r emitFlag s2)"

definition addEvents :: "nat list \<Rightarrow> bool \<Rightarrow> world \<Rightarrow> world" where
  "addEvents rs toStartOfTimeline s =
     emit Thread_Update (fold (\<lambda>ev. addEvent ev toStartOfTimeline False) rs s)"

subsection \<open>The room\<close>

text \<open>
  Modelled from the spec: the class \<open>Room\<close> (\<open>src/models/room.ts\<close>) is not among the
  sources. The spec (4.2, 6) has the thread look the root event up "inside the Room's
  live timeline", remove an event id from each aggregate timeline-set and insert into it
  "with duplicate policy", and reinsert events "as ordinary live events into the Room";
  a timeline-set is "an ordered, deduplicating container of events" (glossary).
\<close>

definition room_getTimelineForEvent :: "world \<Rightarrow> string \<Rightarrow> nat list option" where
  "room_getTimelineForEvent s eventId =
     (if find (\<lambda>r. getId s r = eventId) (room_liveTimeline s) \<noteq> None
      then Some (room_liveTimeline s)
      else None)"

text \<open>\<open>timeline?.getEvents()?.find(it => it.getId() === this.id)\<close>\<close>

definition findRoomEvent :: "world \<Rightarrow> nat option" where
  "findRoomEvent s =
     (case room_getTimelineForEvent s (threadId s) of
        None \<Rightarrow> None
      | Some evs \<Rightarrow> find (\<lambda>it. getId s it = threadId s) evs)"

definition removeEvent :: "world \<Rightarrow> string \<Rightarrow> nat list \<Rightarrow> nat list" where
  "removeEvent s eventId ts = filter (\<lambda>r. getId s r \<noteq> eventId) ts"

text \<open>\<open>timelineSet.addLiveEvent(ev, { duplicateStrategy: DuplicateStrategy.Replace })\<close>\<close>

definition addLiveEvent_Replace :: "world \<Rightarrow> nat \<Rightarrow> nat list \<Rightarrow> nat list" where
  "addLiveEvent_Replace s r ts =
     (if find (\<lambda>x. getId s x = getId s r) ts \<noteq> None
      then map (\<lambda>x. if getId s x = getId s r then r else x) ts
      else ts @ [r])"

text \<open>\<open>room.addLiveEvents(events)\<close>: each event in turn joins the end of the live
  timeline, unless an event of the same id is there already.\<close>

definition room_addLiveEvent :: "nat \<Rightarrow> world \<Rightarrow> world" where
  "room_addLiveEvent r s =
     (if find (\<lambda>x. getId s x = getId s r) (room_liveTimeline s) \<noteq> None
      then s
      else s\<lparr>room_liveTimeline := room_liveTimeline s @ [r]\<rparr>)"

definition room_addLiveEvents :: "nat list \<Rightarrow> world \<Rightarrow> world" where
  "room_addLiveEvents rs s = fold room_addLiveEvent rs s"

subsection \<open>Redaction\<close>

text \<open>The body of \<open>for (const threadEvent of this.events)\<close> in \<open>onRedaction\<close>.\<close>

definition detachThreadEvent :: "nat \<Rightarrow> world \<Rightarrow> world" where
  "detachThreadEvent threadEvent s =
     setThread threadEvent None
       (delete_aggregated threadEvent (name (THREAD_RELATION_TYPE s)) s)"

definition onRedaction :: "nat \<Rightarrow> world \<Rightarrow> world" where
  "onRedaction ev s =
     (if threadRootId (objects s ev) \<noteq> Some (threadId s) then s
      else
        let s1 = s\<lparr>replyCount := replyCount s - 1\<rparr>;
            s2 =
              (if replyCount s1 = 0
               then
                 (let s3 = s1\<lparr>room_threads := room_threads s1 - {threadId s1}\<rparr>
                  in case findRoomEvent s3 of
                       Some roomEvent \<Rightarrow>
                         (let s4 = setThread roomEvent None s3;
                              s5 = delete_aggregated roomEvent (name (THREAD_RELATION_TYPE s4)) s4;
                              s6 = s5\<lparr>rootEvent := Some roomEvent\<rparr>;
                              s7 = fold detachThreadEvent (events s6) s6;
                              s8 = s7\<lparr>room_threadsTimelineSets :=
                                        map (removeEvent s7 (threadId s7))
                                            (room_threadsTimelineSets s7)\<rparr>;
                              s9 = room_addLiveEvents (events s8) s8
                          in emit Room_TimelineRefresh_room s9)
                     | None \<Rightarrow> s3)
               else s1)
        in emit Thread_Update s2)"

text \<open>\<open>onBeforeRedaction\<close> only writes to the console.\<close>

definition onBeforeRedaction :: "nat \<Rightarrow> nat \<Rightarrow> world \<Rightarrow> world" where
  "onBeforeRedaction ev redaction s = s"

subsection \<open>Initialisation from the server\<close>

text \<open>
  An asynchronous method is embedded as the state change it makes when it runs from start
  to end with the given replies. A method that throws after it has written to the thread
  leaves its writes behind, so the asynchronous methods return the error, if any,
  together with the state.
\<close>

definition loadEvent :: "transport \<Rightarrow> string \<Rightarrow> world \<Rightarrow> error + nat \<times> world" where
  "loadEvent c eventId s =
     (case context_request c eventId of
        Rejected \<Rightarrow> Inl RequestFailed
      | Response None \<Rightarrow> Inl EventNotInContext
      | Response (Some w) \<Rightarrow>
          (let (mappedEvent, s1) = mapper c w s
           in Inr (mappedEvent, fetchEditsWhereNeeded c [mappedEvent] s1)))"

text \<open>\<open>roomEvent.event = mappedEvent.event; roomEvent.setThread(this)\<close>: the room's event
  object now holds the payload object of the fetched event.\<close>

definition replaceRootEvent :: "nat \<Rightarrow> nat \<Rightarrow> world \<Rightarrow> world" where
  "replaceRootEvent roomEvent mappedEvent s =
     setThread roomEvent (Some (threadId s))
       (s\<lparr>objects := (objects s)(roomEvent :=
             (objects s roomEvent)\<lparr>event := event (objects s mappedEvent)\<rparr>)\<rparr>)"

text \<open>
  \<open>initialiseThread()\<close>. \<open>EventTimeline.setEventMetadata\<close> sets the sender and target
  members of the fetched event, which thread.ts never reads. The calls of
  \<open>console.error\<close> change nothing; one of them names \<open>event\<close>, which is no variable of the
  method and is read as the global of that name. With metadata,
  \<open>timeline.getTimelineSet()\<close> is evaluated whether or not the room knows a timeline for
  the root event; on an undefined \<open>timeline\<close> it throws, after the counter, the last event,
  the root event and the thread lists have been written.
\<close>

definition initialiseThread :: "transport \<Rightarrow> world \<Rightarrow> error option \<times> world" where
  "initialiseThread c s =
     (case loadEvent c (threadId s) s of
        Inl e \<Rightarrow> (Some e, s)
      | Inr (mappedEvent, s1) \<Rightarrow>
          (let s2 = setThread mappedEvent (Some (threadId s1)) s1
           in case getServerAggregatedRelation s2 mappedEvent (name (THREAD_RELATION_TYPE s2)) of
                None \<Rightarrow> (None, s2)
              | Some metadata \<Rightarrow>
                  (let s3 = s2\<lparr>replyCount := count metadata\<rparr>;
                       (latestEvent, s4) = mapper c (latest_event metadata) s3;
                       s5 = fetchEditsWhereNeeded c [latestEvent] s4;
                       s6 = s5\<lparr>lastEvent := Some latestEvent, rootEvent := Some mappedEvent\<rparr>;
                       s7 = s6\<lparr>room_threadsTimelineSets :=
                                 map (\<lambda>ts. addLiveEvent_Replace s6 mappedEvent
                                              (removeEvent s6 (threadId s6) ts))
                                     (room_threadsTimelineSets s6)\<rparr>
                   in case room_getTimelineForEvent s7 (threadId s7) of
                        None \<Rightarrow> (Some TimelineUndefined, s7)
                      | Some evs \<Rightarrow>
                          (let s8 = (case find (\<lambda>it. getId s7 it = threadId s7) evs of
                                       Some roomEvent \<Rightarrow> replaceRootEvent roomEvent mappedEvent s7
                                     | None \<Rightarrow> s7)
                           in (None,
                               emit Thread_Update
                                 (emit Room_TimelineRefresh_thread
                                    (emit Room_TimelineRefresh_room s8)))))))"

definition onEcho :: "transport \<Rightarrow> nat \<Rightarrow> world \<Rightarrow> error option \<times> world" where
  "onEcho c ev s =
     (if threadRootId (objects s ev) \<noteq> Some (threadId s) then (None, s)
      else if lastEvent s = Some ev then (None, s)
      else if \<not> isRelation s ev (name (THREAD_RELATION_TYPE s)) then (None, s)
      else case initialiseThread c s of
             (Some e, s1) \<Rightarrow> (Some e, s1)
           | (None, s1) \<Rightarrow> (None, emit (Thread_NewReply ev) s1))"

subsection \<open>Construction\<close>

text \<open>
  \<open>new Thread(id, rootEvent, opts)\<close> fails without a room. Otherwise the fields take
  their initial values and the root event, when given, is associated with the thread.
  The constructor also starts \<open>initialiseThread()\<close> without awaiting it; that run is an
  operation of its own (\<open>Initialise\<close> below).
\<close>

definition Thread_constructor :: "string \<Rightarrow> nat option \<Rightarrow> bool \<Rightarrow> world \<Rightarrow> error + world" where
  "Thread_constructor tid root opts_room s =
     (if \<not> opts_room then Inl RoomRequired
      else
        let s1 = s\<lparr>threadId := tid, rootEvent := root, lastEvent := None, replyCount := 0,
                   currentUserParticipated := False, timeline := [], relations := []\<rparr>
        in Inr (case root of None \<Rightarrow> s1 | Some r \<Rightarrow> setThread r (Some tid) s1))"

subsection \<open>Sequences of operations\<close>

datatype operation =
    AddEvent nat bool bool
  | AddEvents "nat list" bool
  | Initialise transport
  | OnRedaction nat
  | OnBeforeRedaction nat nat
  | OnEcho transport nat
  | FetchEdits transport "nat list"
  | SetServerSideSupport FeatureSupport
  | SetServerSideListSupport FeatureSupport

fun step :: "operation \<Rightarrow> world \<Rightarrow> world" where
  "step (AddEvent r toStartOfTimeline emitFlag) s = addEvent r toStartOfTimeline emitFlag s"
| "step (AddEvents rs toStartOfTimeline) s = addEvents rs toStartOfTimeline s"
| "step (Initialise c) s = snd (initialiseThread c s)"
| "step (OnRedaction r) s = onRedaction r s"
| "step (OnBeforeRedaction r redaction) s = onBeforeRedaction r redaction s"
| "step (OnEcho c r) s = snd (onEcho c r s)"
| "step (FetchEdits c rs) s = fetchEditsWhereNeeded c rs s"
| "step (SetServerSideSupport status) s = setServerSideSupport status s"
| "step (SetServerSideListSupport status) s = setServerSideListSupport status s"

definition run :: "operation list \<Rightarrow> world \<Rightarrow> world" where
  "run ops s = fold step ops s"

text \<open>A sequence of \<open>addEvent\<close> calls, each with its own arguments.\<close>

definition addEvent_calls :: "(nat \<times> bool \<times> bool) list \<Rightarrow> world \<Rightarrow> world" where
  "addEvent_calls calls s = fold (\<lambda>(r, toStartOfTimeline, emitFlag). addEvent r toStartOfTimeline emitFlag) calls s"

subsection \<open>Concrete states\<close>

text \<open>A process that has just started: nothing allocated, no credentials, an empty room
  and the static fields at their initial values.\<close>

definition blank :: wire where
  "blank = Wire [] None None False []"

definition start :: world where
  "start =
     \<lparr>hasServerSideSupport = NoneSupport, hasServerSideListSupport = NoneSupport,
      prefer_FILTER_RELATED_BY_SENDERS = False, prefer_FILTER_RELATED_BY_REL_TYPES = False,
      prefer_THREAD_RELATION_TYPE = False,
      payloads = (\<lambda>_. blank),
      objects = (\<lambda>_. \<lparr>event = 0, thread = None, localTimestamp = 0, threadRootId = None,
                      replacingEvent = None\<rparr>),
      nextPayload = 0, nextEvent = 0, userId = None,
      threadId = [], rootEvent = None, lastEvent = None, replyCount = 0,
      currentUserParticipated = False, timeline = [], relations = [],
      room_threads = {}, room_liveTimeline = [], room_threadsTimelineSets = [],
      emitted = []\<rparr>"

text \<open>An event arriving from outside (from sync): a new payload and a new event object
  with the given timestamp and recorded thread root.\<close>

definition receive :: "wire \<Rightarrow> int \<Rightarrow> string option \<Rightarrow> world \<Rightarrow> world" where
  "receive w ts root s =
     snd (mapper \<lparr>context_request = (\<lambda>_. Rejected), relations_query = (\<lambda>_. None),
                  mapped_localTimestamp = (\<lambda>_. ts), mapped_threadRootId = (\<lambda>_. root)\<rparr> w s)"

text \<open>
  A room of Bob's client with a root message from Alice (object 0, in the live timeline),
  two thread replies from Bob (objects 1 and 2) and a reaction to the first reply
  (object 3); then the thread on the root message, as \<open>room.createThread\<close> leaves it once
  the constructor has returned.
\<close>

definition root_wire :: wire where
  "root_wire = Wire ''$root'' (Some ''@alice'') None False []"

definition reply_wire :: "string \<Rightarrow> wire" where
  "reply_wire i = Wire i (Some ''@bob'') (Some ''m.thread'') False []"

definition reaction_wire :: wire where
  "reaction_wire = Wire ''$reaction'' (Some ''@bob'') (Some ''m.annotation'') False []"

definition room0 :: world where
  "room0 =
     (receive reaction_wire 3 (Some ''$root'')
       (receive (reply_wire ''$reply2'') 50 (Some ''$root'')
         (receive (reply_wire ''$reply1'') 5 (Some ''$root'')
           (receive root_wire 1 None start))))
     \<lparr>userId := Some ''@bob'', room_liveTimeline := [0]\<rparr>"

definition thread0 :: world where
  "thread0 =
     (case Thread_constructor ''$root'' (Some 0) True room0 of
        Inr s \<Rightarrow> s\<lparr>room_threads := {''$root''}\<rparr>
      | Inl e \<Rightarrow> room0)"

text \<open>A server that bundles the thread aggregation with the root message (two replies,
  the latest one \<open>$latest\<close>), and one that does not.\<close>

definition bundling_server :: transport where
  "bundling_server =
     \<lparr>context_request = (\<lambda>_. Response (Some
         (Wire ''$root'' (Some ''@alice'') None False
            [(''m.thread'', Bundled 2 (reply_wire ''$latest''))]))),
      relations_query = (\<lambda>_. Some []),
      mapped_localTimestamp = (\<lambda>_. 100),
      mapped_threadRootId = (\<lambda>w. if rel_type w = Some ''m.thread'' then Some ''$root'' else None)\<rparr>"

definition plain_server :: transport where
  "plain_server = bundling_server\<lparr>context_request := (\<lambda>_. Response (Some root_wire))\<rparr>"

text \<open>The thread after the first reply arrived without server support (\<open>thread1\<close>), and
  after the server was then found to support threads and the thread was initialised from
  it (\<open>thread_stable\<close>).\<close>

definition thread1 :: world where
  "thread1 = addEvent 1 False False thread0"

definition thread_stable :: world where
  "thread_stable = run [SetServerSideSupport Stable, Initialise bundling_server] thread1"

section \<open>Properties\<close>

subsection \<open>What the building blocks leave alone\<close>

lemma events_timeline [simp]: "events s = timeline s"
  by (simp add: events_def)

lemma find_None_image: "(find (\<lambda>r. f r = k) xs = None) = (k \<notin> f ` set xs)"
  by (auto simp: find_None_iff)

lemma setThread_frame [simp]:
  "payloads (setThread r t s) = payloads s"
  "event (objects (setThread r t s) x) = event (objects s x)"
  "localTimestamp (objects (setThread r t s) x) = localTimestamp (objects s x)"
  "threadRootId (objects (setThread r t s) x) = threadRootId (objects s x)"
  "timeline (setThread r t s) = timeline s"
  "lastEvent (setThread r t s) = lastEvent s"
  "rootEvent (setThread r t s) = rootEvent s"
  "replyCount (setThread r t s) = replyCount s"
  "currentUserParticipated (setThread r t s) = currentUserParticipated s"
  "hasServerSideSupport (setThread r t s) = hasServerSideSupport s"
  "prefer_THREAD_RELATION_TYPE (setThread r t s) = prefer_THREAD_RELATION_TYPE s"
  "userId (setThread r t s) = userId s"
  "threadId (setThread r t s) = threadId s"
  "emitted (setThread r t s) = emitted s"
  "relations (setThread r t s) = relations s"
  by (simp_all add: setThread_def)

lemma setThread_payload [simp]: "payload (setThread r t s) = payload s"
  by (simp add: fun_eq_iff payload_def setThread_def)

lemma setThread_reads [simp]:
  "getId (setThread r t s) = getId s"
  "getSender (setThread r t s) = getSender s"
  "isRelation (setThread r t s) = isRelation s"
  "isRelation_any (setThread r t s) = isRelation_any s"
  "isEncrypted (setThread r t s) = isEncrypted s"
  "getServerAggregatedRelation (setThread r t s) = getServerAggregatedRelation s"
  "THREAD_RELATION_TYPE (setThread r t s) = THREAD_RELATION_TYPE s"
  by (simp_all add: fun_eq_iff getId_def getSender_def isRelation_def isRelation_any_def
        isEncrypted_def getServerAggregatedRelation_def THREAD_RELATION_TYPE_def)

lemma setThread_lookups [simp]:
  "sentByCurrentUser (setThread r t s) = sentByCurrentUser s"
  "timelineSet_findEventById (setThread r t s) = timelineSet_findEventById s"
  "lastReply m (setThread r t s) = lastReply m s"
  by (simp_all add: fun_eq_iff sentByCurrentUser_def timelineSet_findEventById_def lastReply_def
        split: option.splits)

lemma setThread_lookups2 [simp]:
  "findEventById (setThread r t s) = findEventById s"
  "newerThanLastReply (setThread r t s) = newerThanLastReply s"
  by (simp_all add: fun_eq_iff findEventById_def newerThanLastReply_def split: option.splits)

lemma participated_payload [simp]: "payload (s\<lparr>currentUserParticipated := b\<rparr>) = payload s"
  by (simp add: fun_eq_iff payload_def)

lemma participated_reads [simp]:
  "getId (s\<lparr>currentUserParticipated := b\<rparr>) = getId s"
  "isRelation (s\<lparr>currentUserParticipated := b\<rparr>) = isRelation s"
  "THREAD_RELATION_TYPE (s\<lparr>currentUserParticipated := b\<rparr>) = THREAD_RELATION_TYPE s"
  "timelineSet_findEventById (s\<lparr>currentUserParticipated := b\<rparr>) = timelineSet_findEventById s"
  "lastReply m (s\<lparr>currentUserParticipated := b\<rparr>) = lastReply m s"
  by (simp_all add: fun_eq_iff getId_def isRelation_def THREAD_RELATION_TYPE_def
        timelineSet_findEventById_def lastReply_def)

lemma participated_lookups [simp]:
  "findEventById (s\<lparr>currentUserParticipated := b\<rparr>) = findEventById s"
  "newerThanLastReply (s\<lparr>currentUserParticipated := b\<rparr>) = newerThanLastReply s"
  by (simp_all add: fun_eq_iff findEventById_def newerThanLastReply_def split: option.splits)

lemma countAndNotify_frame [simp]:
  "payloads (countAndNotify r e s) = payloads s"
  "objects (countAndNotify r e s) = objects s"
  "currentUserParticipated (countAndNotify r e s) = currentUserParticipated s"
  "timeline (countAndNotify r e s) = timeline s"
  "relations (countAndNotify r e s) = relations s"
  by (simp_all add: countAndNotify_def emit_def Let_def)

lemma addEventToTimeline_frame [simp]:
  "payloads (addEventToTimeline r b s) = payloads s"
  "objects (addEventToTimeline r b s) = objects s"
  "currentUserParticipated (addEventToTimeline r b s) = currentUserParticipated s"
  "relations (addEventToTimeline r b s) = relations s"
  "replyCount (addEventToTimeline r b s) = replyCount s"
  "emitted (addEventToTimeline r b s) = emitted s"
  by (simp_all add: addEventToTimeline_def timelineSet_addEventToTimeline_def)

lemma aggregate_frame [simp]:
  "payloads (aggregate r s) = payloads s"
  "objects (aggregate r s) = objects s"
  "currentUserParticipated (aggregate r s) = currentUserParticipated s"
  "timeline (aggregate r s) = timeline s"
  "replyCount (aggregate r s) = replyCount s"
  "emitted (aggregate r s) = emitted s"
  by (simp_all add: aggregate_def)

subsection \<open>What \<open>addEvent\<close> does to the timeline\<close>

lemma addEventToTimeline_timeline:
  "timeline (addEventToTimeline r b s) =
     (if findEventById s (getId s r) = None
      then (if b then r # timeline s else timeline s @ [r])
      else timeline s)"
  by (simp add: addEventToTimeline_def timelineSet_addEventToTimeline_def)

lemma addEvent_timeline:
  "timeline (addEvent r b e s) =
     (if findEventById s (getId s r) = None \<and>
         (\<not> truthy (hasServerSideSupport s) \<or> (\<not> b \<and> newerThanLastReply s r))
      then (if b then r # timeline s else timeline s @ [r])
      else timeline s)"
  by (auto simp: addEvent_def Let_def addEventToTimeline_timeline aggregate_def)

lemma addEvent_payloads [simp]: "payloads (addEvent r b e s) = payloads s"
  by (simp add: addEvent_def Let_def)

lemma addEvent_event [simp]: "event (objects (addEvent r b e s) x) = event (objects s x)"
  by (simp add: addEvent_def Let_def)

lemma addEvent_getId [simp]: "getId (addEvent r b e s) = getId s"
  by (simp add: fun_eq_iff getId_def payload_def)

lemma addEvent_participated:
  "currentUserParticipated (addEvent r b e s) =
     (currentUserParticipated s \<or> sentByCurrentUser s r)"
  by (auto simp: addEvent_def Let_def)

lemma findEventById_None:
  "findEventById s k = None \<Longrightarrow> k \<notin> getId s ` set (timeline s)"
  by (auto simp: findEventById_def timelineSet_findEventById_def find_None_iff
        split: option.splits if_splits)

lemma findEventById_member:
  "k \<in> getId s ` set (timeline s) \<Longrightarrow> findEventById s k \<noteq> None"
  using findEventById_None by blast

subsection \<open>The concrete states, evaluated\<close>

lemmas demo_defs = thread0_def room0_def receive_def mapper_def start_def Thread_constructor_def
  root_wire_def reply_wire_def reaction_wire_def setThread_def Let_def

lemmas read_defs = getId_def getSender_def isRelation_def isRelation_any_def isEncrypted_def
  getServerAggregatedRelation_def payload_def THREAD_RELATION_TYPE_def name_def
  RelationType_Annotation_def RelationType_Replace_def

lemmas op_defs = addEvent_def countAndNotify_def addEventToTimeline_def
  timelineSet_addEventToTimeline_def findEventById_def timelineSet_findEventById_def
  newerThanLastReply_def lastReply_def sentByCurrentUser_def aggregate_def emit_def
  setThread_def

lemmas init_defs = initialiseThread_def loadEvent_def mapper_def fetchEditsWhereNeeded_def
  fetchEdit_def makeReplaced_def replaceRootEvent_def room_getTimelineForEvent_def
  removeEvent_def addLiveEvent_Replace_def emit_def setThread_def

lemma thread0_fields:
  "timeline thread0 = []" "replyCount thread0 = 0" "hasServerSideSupport thread0 = NoneSupport"
  "threadId thread0 = ''$root''" "rootEvent thread0 = Some 0" "lastEvent thread0 = None"
  "userId thread0 = Some ''@bob''" "\<not> currentUserParticipated thread0"
  "room_liveTimeline thread0 = [0]" "room_threads thread0 = {''$root''}"
  "prefer_THREAD_RELATION_TYPE thread0 = False" "emitted thread0 = []" "relations thread0 = []"
  "nextEvent thread0 = 4" "nextPayload thread0 = 4" "room_threadsTimelineSets thread0 = []"
  by (simp_all add: demo_defs)

lemma thread0_heap:
  "payloads thread0 =
     (\<lambda>_. blank)(0 := root_wire, 1 := reply_wire ''$reply1'', 2 := reply_wire ''$reply2'',
                  3 := reaction_wire)"
  "objects thread0 =
     (\<lambda>_. \<lparr>event = 0, thread = None, localTimestamp = 0, threadRootId = None,
            replacingEvent = None\<rparr>)
     (0 := \<lparr>event = 0, thread = Some ''$root'', localTimestamp = 1, threadRootId = None,
            replacingEvent = None\<rparr>,
      1 := \<lparr>event = 1, thread = None, localTimestamp = 5, threadRootId = Some ''$root'',
            replacingEvent = None\<rparr>,
      2 := \<lparr>event = 2, thread = None, localTimestamp = 50, threadRootId = Some ''$root'',
            replacingEvent = None\<rparr>,
      3 := \<lparr>event = 3, thread = None, localTimestamp = 3, threadRootId = Some ''$root'',
            replacingEvent = None\<rparr>)"
  by (simp_all add: demo_defs fun_eq_iff)

lemma thread1_fields:
  "timeline thread1 = [1]" "replyCount thread1 = 1" "hasServerSideSupport thread1 = NoneSupport"
  "threadId thread1 = ''$root''" "rootEvent thread1 = Some 0" "lastEvent thread1 = None"
  "userId thread1 = Some ''@bob''" "currentUserParticipated thread1"
  "room_liveTimeline thread1 = [0]" "room_threads thread1 = {''$root''}"
  "prefer_THREAD_RELATION_TYPE thread1 = False" "emitted thread1 = []" "relations thread1 = []"
  "nextEvent thread1 = 4" "nextPayload thread1 = 4" "room_threadsTimelineSets thread1 = []"
  "payloads thread1 = payloads thread0"
  "objects thread1 = (objects thread0)
      (1 := \<lparr>event = 1, thread = Some ''$root'', localTimestamp = 5,
             threadRootId = Some ''$root'', replacingEvent = None\<rparr>)"
  by (simp_all add: thread1_def op_defs read_defs thread0_fields thread0_heap reply_wire_def
        Let_def fun_eq_iff)

lemma thread_stable_eq:
  "thread_stable = thread1
     \<lparr>hasServerSideSupport := Stable,
      payloads := (payloads thread0)
        (4 := Wire ''$root'' (Some ''@alice'') None False
                [(''m.thread'', Bundled 2 (reply_wire ''$latest''))],
         5 := reply_wire ''$latest''),
      objects := (objects thread1)
        (4 := \<lparr>event = 4, thread = Some ''$root'', localTimestamp = 100,
               threadRootId = None, replacingEvent = None\<rparr>,
         5 := \<lparr>event = 5, thread = None, localTimestamp = 100,
               threadRootId = Some ''$root'', replacingEvent = None\<rparr>,
         0 := \<lparr>event = 4, thread = Some ''$root'', localTimestamp = 1,
               threadRootId = None, replacingEvent = None\<rparr>),
      nextPayload := 6, nextEvent := 6,
      rootEvent := Some 4, lastEvent := Some 5, replyCount := 2,
      room_threadsTimelineSets := [],
      emitted := [Room_TimelineRefresh_room, Room_TimelineRefresh_thread, Thread_Update]\<rparr>"
  by (simp add: thread_stable_def run_def init_defs read_defs setServerSideSupport_def
        thread1_fields thread0_heap bundling_server_def reply_wire_def root_wire_def Let_def)

lemma thread_stable_fields:
  "timeline thread_stable = [1]" "replyCount thread_stable = 2"
  "hasServerSideSupport thread_stable = Stable"
  "threadId thread_stable = ''$root''" "rootEvent thread_stable = Some 4"
  "lastEvent thread_stable = Some 5"
  "prefer_THREAD_RELATION_TYPE thread_stable = False"
  "userId thread_stable = Some ''@bob''"
  "currentUserParticipated thread_stable"
  "relations thread_stable = []"
  "emitted thread_stable = [Room_TimelineRefresh_room, Room_TimelineRefresh_thread, Thread_Update]"
  by (simp_all add: thread_stable_eq thread1_fields)

lemma thread_stable_heap:
  "payloads thread_stable = (\<lambda>_. blank)
      (0 := root_wire, 1 := reply_wire ''$reply1'', 2 := reply_wire ''$reply2'',
       3 := reaction_wire,
       4 := Wire ''$root'' (Some ''@alice'') None False
              [(''m.thread'', Bundled 2 (reply_wire ''$latest''))],
       5 := reply_wire ''$latest'')"
  "objects thread_stable =
     (\<lambda>_. \<lparr>event = 0, thread = None, localTimestamp = 0, threadRootId = None,
            replacingEvent = None\<rparr>)
     (0 := \<lparr>event = 4, thread = Some ''$root'', localTimestamp = 1, threadRootId = None,
            replacingEvent = None\<rparr>,
      1 := \<lparr>event = 1, thread = Some ''$root'', localTimestamp = 5,
            threadRootId = Some ''$root'', replacingEvent = None\<rparr>,
      2 := \<lparr>event = 2, thread = None, localTimestamp = 50, threadRootId = Some ''$root'',
            replacingEvent = None\<rparr>,
      3 := \<lparr>event = 3, thread = None, localTimestamp = 3, threadRootId = Some ''$root'',
            replacingEvent = None\<rparr>,
      4 := \<lparr>event = 4, thread = Some ''$root'', localTimestamp = 100,
            threadRootId = None, replacingEvent = None\<rparr>,
      5 := \<lparr>event = 5, thread = None, localTimestamp = 100,
            threadRootId = Some ''$root'', replacingEvent = None\<rparr>)"
  by (simp_all add: thread_stable_eq thread1_fields thread0_heap fun_eq_iff)

subsection \<open>The capability flag\<close>

lemma prefer_after_calls:
  "prefer_THREAD_RELATION_TYPE (fold setServerSideSupport calls s) =
     (prefer_THREAD_RELATION_TYPE s \<or> (\<exists>status \<in> set calls. status \<noteq> Stable))"
  by (induction calls arbitrary: s)
     (auto simp: setServerSideSupport_def setPreferUnstable_def Let_def
        THREAD_RELATION_TYPE_def FILTER_RELATED_BY_SENDERS_def FILTER_RELATED_BY_REL_TYPES_def)

text \<open>
  Claim C6, as stated: after any sequence of \<open>setSupport\<close> calls the relation type is
  spelled as the last call says, stable after \<open>setSupport(Stable)\<close>. It fails:
  \<open>setServerSideSupport\<close> only ever switches the preference for the unstable spelling
  on, so after \<open>setSupport(Experimental)\<close> followed by \<open>setSupport(Stable)\<close> the lookup
  still returns the unstable identifier.
\<close>

theorem C6_stable_after_experimental_counterexample:
  "name (THREAD_RELATION_TYPE
      (setServerSideSupport Stable (setServerSideSupport Experimental start)))
     = ''io.element.thread''"
  by (simp add: name_def THREAD_RELATION_TYPE_def setServerSideSupport_def setPreferUnstable_def
        Let_def start_def FILTER_RELATED_BY_SENDERS_def FILTER_RELATED_BY_REL_TYPES_def)

text \<open>
  Claim C6, amended: after a sequence of \<open>setSupport\<close> calls the lookup of the thread
  relation type returns the unstable identifier exactly when the unstable spelling was
  preferred before or some call of the sequence had a status other than \<open>Stable\<close>, and
  the stable identifier otherwise. So it is unstable whenever the last call is
  \<open>setSupport(Experimental)\<close>, and stable after \<open>setSupport(Stable)\<close> only if no call
  so far had another status.
\<close>

theorem C6_relation_type_after_setSupport:
  "name (THREAD_RELATION_TYPE (fold setServerSideSupport calls s)) =
     (if prefer_THREAD_RELATION_TYPE s \<or> (\<exists>status \<in> set calls. status \<noteq> Stable)
      then ''io.element.thread'' else ''m.thread'')"
  by (simp add: name_def THREAD_RELATION_TYPE_def prefer_after_calls)

theorem C6_relation_type_after_setSupport_witness:
  "name (THREAD_RELATION_TYPE (fold setServerSideSupport [Stable, Stable] start)) = ''m.thread''
   \<and> name (THREAD_RELATION_TYPE (fold setServerSideSupport [Stable, Experimental] start))
       = ''io.element.thread''"
  using C6_relation_type_after_setSupport [of "[Stable, Stable]" start]
    C6_relation_type_after_setSupport [of "[Stable, Experimental]" start]
  by (simp add: start_def)

subsection \<open>The reply counter\<close>

text \<open>
  Claim C2: for every thread and every sequence of \<open>addEvent\<close>, \<open>addEvents\<close>,
  \<open>initialise\<close> and \<open>onRedaction\<close> calls, \<open>replyCount\<close> is at least 0. The code does
  not keep this. \<open>addEvent\<close> counts an event only when it bears the thread relation, and
  the getter \<open>length\<close> documents the counter as "the number of messages in the thread",
  annotations excluded; \<open>onRedaction\<close> decrements for every redacted event of the thread,
  counted or not, and does not look at the counter first. A reaction that was added to
  the thread and is then redacted leaves the counter at -1.
\<close>

theorem C2_redacted_reaction_makes_replyCount_negative:
  "replyCount (run [AddEvent 3 False True, OnRedaction 3] thread0) = - 1"
  by (simp add: run_def onRedaction_def op_defs read_defs thread0_fields thread0_heap
        reaction_wire_def Let_def)

subsection \<open>Live events with server support\<close>

text \<open>
  Claim C3, as stated: in Stable mode with a known root event, a live event
  (\<open>toStartOfTimeline = false\<close>) is inserted exactly when its timestamp is newer than
  that of the current \<open>lastEvent\<close>, and otherwise the timeline keeps its length. It
  fails: the code compares with \<open>lastReply()\<close>, the newest entry of the private timeline,
  not with the field \<open>lastEvent\<close>. In \<open>thread_stable\<close> the last event (object 5, from the
  bundled metadata) has timestamp 100 and the timeline holds one reply of timestamp 5; a
  live reply of timestamp 50 is not newer than \<open>lastEvent\<close>, and is inserted.
\<close>

theorem C3_older_than_lastEvent_inserted_counterexample:
  "hasServerSideSupport thread_stable = Stable
   \<and> rootEvent thread_stable = Some 4
   \<and> lastEvent thread_stable = Some 5
   \<and> localTimestamp (objects thread_stable 2) < localTimestamp (objects thread_stable 5)
   \<and> timeline thread_stable = [1]
   \<and> timeline (addEvent 2 False True thread_stable) = [1, 2]"
  by (simp add: addEvent_timeline thread_stable_fields thread_stable_heap newerThanLastReply_def
        lastReply_def findEventById_def timelineSet_findEventById_def read_defs reply_wire_def)

text \<open>
  Claim C3, amended: in Stable mode, \<open>addEvent(event, toStartOfTimeline=false)\<close>
  appends the event to the private timeline if and only if the timeline has a newest
  entry (\<open>lastReply()\<close>), the event's timestamp is strictly newer than that entry's, and
  \<open>findEventById\<close> finds no event of its identifier (neither \<open>lastEvent\<close> nor a timeline
  entry); in every other case the timeline is unchanged.
\<close>

theorem C3_live_event_insertion:
  assumes "hasServerSideSupport s = Stable"
  shows "timeline (addEvent r False e s) =
     (if newerThanLastReply s r \<and> findEventById s (getId s r) = None
      then timeline s @ [r] else timeline s)"
  using assms by (auto simp: addEvent_timeline)

theorem C3_live_event_insertion_witness:
  "hasServerSideSupport thread_stable = Stable
   \<and> timeline (addEvent 2 False True thread_stable) = [1, 2]
   \<and> timeline (addEvent 3 False True thread_stable) = [1]"
  using C3_live_event_insertion [of thread_stable 2 True]
    C3_live_event_insertion [of thread_stable 3 True]
  by (simp add: thread_stable_fields thread_stable_heap newerThanLastReply_def
        lastReply_def findEventById_def timelineSet_findEventById_def read_defs reply_wire_def)

subsection \<open>Backfill with server support\<close>

text \<open>
  Claim C4, as stated: in Stable mode a backfilled event (\<open>toStartOfTimeline = true\<close>)
  that is neither an annotation nor a replacement is always inserted into the private
  timeline. It fails: with server support the only insertion of \<open>addEvent\<close> is guarded
  by \<open>!toStartOfTimeline\<close>. The second reply, backfilled into \<open>thread_stable\<close>, is not in
  the timeline afterwards.
\<close>

theorem C4_backfill_not_inserted_counterexample:
  "hasServerSideSupport thread_stable = Stable
   \<and> \<not> isRelation thread_stable 2 RelationType_Annotation
   \<and> \<not> isRelation thread_stable 2 RelationType_Replace
   \<and> \<not> has thread_stable (getId thread_stable 2)
   \<and> timeline (addEvent 2 True True thread_stable) = [1]
   \<and> \<not> has (addEvent 2 True True thread_stable) (getId thread_stable 2)"
  by (simp add: addEvent_timeline has_def timelineSet_findEventById_def thread_stable_fields
        thread_stable_heap read_defs reply_wire_def)

text \<open>
  Claim C4, amended: in Stable mode, for every event that is neither an annotation nor a
  replacement, \<open>addEvent(event, toStartOfTimeline=true)\<close> leaves the private timeline
  unchanged: the backfilled event is not inserted, and the membership test for its
  identifier answers as before.
\<close>

theorem C4_backfill_leaves_timeline:
  assumes "hasServerSideSupport s = Stable"
    and "\<not> isRelation s r RelationType_Annotation"
    and "\<not> isRelation s r RelationType_Replace"
  shows "timeline (addEvent r True e s) = timeline s
       \<and> has (addEvent r True e s) (getId s r) = has s (getId s r)"
  using assms by (simp add: addEvent_timeline has_def timelineSet_findEventById_def)

theorem C4_backfill_leaves_timeline_witness:
  "hasServerSideSupport thread_stable = Stable
   \<and> \<not> isRelation thread_stable 2 RelationType_Annotation
   \<and> \<not> isRelation thread_stable 2 RelationType_Replace
   \<and> timeline (addEvent 2 True False thread_stable) = [1]"
proof -
  have h1: "hasServerSideSupport thread_stable = Stable" by (simp add: thread_stable_fields)
  have h2: "\<not> isRelation thread_stable 2 RelationType_Annotation"
    by (simp add: read_defs thread_stable_heap reply_wire_def)
  have h3: "\<not> isRelation thread_stable 2 RelationType_Replace"
    by (simp add: read_defs thread_stable_heap reply_wire_def)
  from C4_backfill_leaves_timeline [OF h1 h2 h3, of False] h1 h2 h3
  show ?thesis by (simp add: thread_stable_fields)
qed

subsection \<open>Annotations and replacements\<close>

text \<open>
  Claim C5, as stated: an event bearing an annotation or replacement relation is never
  inserted into the private timeline by \<open>addEvent\<close>; it is forwarded to the relation
  aggregator and the method returns with no new-reply notification. It fails without
  server support, where \<open>addEvent\<close> adds "all incoming events to the thread's timeline
  set": the reaction, added to \<open>thread0\<close>, enters the timeline and the notification is
  sent.
\<close>

theorem C5_annotation_inserted_without_support_counterexample:
  "isRelation thread0 3 RelationType_Annotation
   \<and> timeline thread0 = []
   \<and> timeline (addEvent 3 False True thread0) = [3]
   \<and> emitted (addEvent 3 False True thread0) = [Thread_NewReply 3]"
  by (simp add: op_defs read_defs thread0_fields thread0_heap reaction_wire_def Let_def)

text \<open>
  Claim C5, amended: with server support (Experimental or Stable), an event bearing an
  annotation or replacement relation that is backfilled, or that is live and not newer
  than the newest timeline entry, is not inserted into the private timeline; \<open>addEvent\<close>
  forwards it to the relation aggregator (parent aggregation, then child aggregation)
  and returns: the reply counter is unchanged and no notification is sent.
\<close>

theorem C5_annotation_aggregated:
  assumes "truthy (hasServerSideSupport s)"
    and "toStartOfTimeline \<or> \<not> newerThanLastReply s r"
    and "isRelation s r RelationType_Annotation \<or> isRelation s r RelationType_Replace"
  shows "timeline (addEvent r toStartOfTimeline e s) = timeline s
       \<and> relations (addEvent r toStartOfTimeline e s) =
           relations s @ [AggregateParentEvent r, AggregateChildEvent r]
       \<and> replyCount (addEvent r toStartOfTimeline e s) = replyCount s
       \<and> emitted (addEvent r toStartOfTimeline e s) = emitted s"
  using assms by (auto simp: addEvent_def Let_def aggregate_def)

theorem C5_annotation_aggregated_witness:
  "truthy (hasServerSideSupport thread_stable)
   \<and> \<not> newerThanLastReply thread_stable 3
   \<and> isRelation thread_stable 3 RelationType_Annotation
   \<and> timeline (addEvent 3 False True thread_stable) = [1]
   \<and> relations (addEvent 3 False True thread_stable)
        = [AggregateParentEvent 3, AggregateChildEvent 3]
   \<and> replyCount (addEvent 3 False True thread_stable) = 2
   \<and> emitted (addEvent 3 False True thread_stable) = emitted thread_stable"
proof -
  have h1: "truthy (hasServerSideSupport thread_stable)" by (simp add: thread_stable_fields)
  have h2: "\<not> newerThanLastReply thread_stable 3"
    by (simp add: newerThanLastReply_def lastReply_def thread_stable_fields thread_stable_heap)
  have h3: "isRelation thread_stable 3 RelationType_Annotation"
    by (simp add: read_defs thread_stable_heap reaction_wire_def)
  from C5_annotation_aggregated [OF h1 disjI2 [OF h2] disjI1 [OF h3], of False True] h1 h2 h3
  show ?thesis by (simp add: thread_stable_fields)
qed

subsection \<open>One timeline entry per identifier\<close>

lemma addEvent_distinct:
  assumes "distinct (map (getId s) (timeline s))"
  shows "distinct (map (getId (addEvent r b e s)) (timeline (addEvent r b e s)))"
  using assms by (auto simp: addEvent_timeline dest: findEventById_None)

lemma addEvent_calls_distinct:
  "distinct (map (getId s) (timeline s)) \<Longrightarrow>
   distinct (map (getId (addEvent_calls calls s)) (timeline (addEvent_calls calls s)))"
  unfolding addEvent_calls_def
proof (induction calls arbitrary: s)
  case Nil
  then show ?case by simp
next
  case (Cons c calls)
  obtain r b e where c: "c = (r, b, e)" by (cases c)
  from Cons.prems have "distinct (map (getId (addEvent r b e s)) (timeline (addEvent r b e s)))"
    by (rule addEvent_distinct)
  from Cons.IH [OF this] show ?case by (simp add: c)
qed

text \<open>
  Claim C8: for all sequences of \<open>addEvent\<close> calls the private timeline contains at most
  one entry per event identifier, and delivering an event whose identifier already
  occurs in the timeline leaves the timeline unchanged. The sequence starts from a
  timeline with no identifier twice, as the empty timeline of a new thread is.
\<close>

theorem C8_one_entry_per_identifier:
  "(distinct (map (getId s) (timeline s)) \<longrightarrow>
      distinct (map (getId (addEvent_calls calls s)) (timeline (addEvent_calls calls s))))
   \<and> (getId s r \<in> getId s ` set (timeline s) \<longrightarrow>
        timeline (addEvent r b e s) = timeline s)"
  using addEvent_calls_distinct [of s calls] findEventById_member [of "getId s r" s]
  by (auto simp: addEvent_timeline)

theorem C8_one_entry_per_identifier_witness:
  "distinct (map (getId thread0) (timeline thread0))
   \<and> distinct (map (getId (addEvent_calls [(1, False, True), (1, False, True), (2, True, False)] thread0))
        (timeline (addEvent_calls [(1, False, True), (1, False, True), (2, True, False)] thread0)))
   \<and> getId thread1 1 \<in> getId thread1 ` set (timeline thread1)
   \<and> timeline (addEvent 1 False True thread1) = timeline thread1"
proof -
  have h1: "distinct (map (getId thread0) (timeline thread0))" by (simp add: thread0_fields)
  have h2: "getId thread1 1 \<in> getId thread1 ` set (timeline thread1)"
    by (simp add: thread1_fields)
  from C8_one_entry_per_identifier
         [of thread0 "[(1, False, True), (1, False, True), (2, True, False)]" 0 False False]
       C8_one_entry_per_identifier [of thread1 "[]" 1 False True] h1 h2
  show ?thesis by blast
qed

subsection \<open>The two lookups\<close>

text \<open>
  Claim C10: if \<open>lastEvent\<close> refers to an event that is not present in the private
  timeline (no timeline entry has its identifier, as after it was built from the bundled
  metadata), then \<open>findEventById\<close> with that identifier returns the event while \<open>has\<close>
  with the same identifier returns false.
\<close>

theorem C10_lookups_disagree:
  assumes "lastEvent s = Some l" and "getId s l \<notin> getId s ` set (timeline s)"
  shows "findEventById s (getId s l) = Some l \<and> \<not> has s (getId s l)"
  using assms
  by (simp add: findEventById_def has_def timelineSet_findEventById_def find_None_image)

theorem C10_lookups_disagree_witness:
  "lastEvent thread_stable = Some 5
   \<and> findEventById thread_stable ''$latest'' = Some 5
   \<and> \<not> has thread_stable ''$latest''"
proof -
  have h1: "lastEvent thread_stable = Some 5" by (simp add: thread_stable_fields)
  have id5: "getId thread_stable 5 = ''$latest''"
    by (simp add: read_defs thread_stable_heap reply_wire_def)
  have h2: "getId thread_stable 5 \<notin> getId thread_stable ` set (timeline thread_stable)"
    by (simp add: read_defs thread_stable_fields thread_stable_heap reply_wire_def)
  from C10_lookups_disagree [OF h1 h2] h1 show ?thesis by (simp add: id5)
qed

subsection \<open>Initialisation without metadata\<close>

lemma fetchEdit_shape:
  "\<exists>v. fetchEdit c r s = s\<lparr>objects := (objects s)(r := (objects s r)\<lparr>replacingEvent := v\<rparr>)\<rparr>"
proof (cases "fetchEdit c r s = s")
  case True
  have "s = s\<lparr>objects := (objects s)(r := (objects s r)\<lparr>replacingEvent := replacingEvent (objects s r)\<rparr>)\<rparr>"
    by simp
  with True show ?thesis by metis
next
  case False
  then show ?thesis
    by (auto simp: fetchEdit_def makeReplaced_def split: if_splits option.splits list.splits)
qed

lemma fetchEdit_fold_shape:
  "\<exists>E. fold (fetchEdit c) ys s = s\<lparr>objects := E\<rparr>
       \<and> (\<forall>x. x \<notin> set ys \<longrightarrow> E x = objects s x)
       \<and> (\<forall>x. \<exists>v. E x = (objects s x)\<lparr>replacingEvent := v\<rparr>)"
proof (induction ys arbitrary: s)
  case Nil
  have "s = s\<lparr>objects := objects s\<rparr>" by simp
  moreover have "\<forall>x. \<exists>v. objects s x = (objects s x)\<lparr>replacingEvent := v\<rparr>"
  proof
    fix x
    have "objects s x = (objects s x)\<lparr>replacingEvent := replacingEvent (objects s x)\<rparr>" by simp
    then show "\<exists>v. objects s x = (objects s x)\<lparr>replacingEvent := v\<rparr>" by (rule exI)
  qed
  ultimately show ?case by (intro exI [of _ "objects s"]) simp
next
  case (Cons y ys)
  obtain v where v: "fetchEdit c y s = s\<lparr>objects := (objects s)(y := (objects s y)\<lparr>replacingEvent := v\<rparr>)\<rparr>"
    using fetchEdit_shape by blast
  let ?s1 = "fetchEdit c y s"
  obtain E where E: "fold (fetchEdit c) ys ?s1 = ?s1\<lparr>objects := E\<rparr>"
    "\<forall>x. x \<notin> set ys \<longrightarrow> E x = objects ?s1 x"
    "\<forall>x. \<exists>u. E x = (objects ?s1 x)\<lparr>replacingEvent := u\<rparr>"
    using Cons.IH [of ?s1] by blast
  have 1: "fold (fetchEdit c) (y # ys) s = s\<lparr>objects := E\<rparr>"
    using E(1) by (simp add: v)
  have 2: "\<forall>x. x \<notin> set (y # ys) \<longrightarrow> E x = objects s x"
    using E(2) by (simp add: v)
  have 3: "\<forall>x. \<exists>u. E x = (objects s x)\<lparr>replacingEvent := u\<rparr>"
  proof
    fix x
    obtain u where "E x = (objects ?s1 x)\<lparr>replacingEvent := u\<rparr>" using E(3) by blast
    then have "E x = (objects s x)\<lparr>replacingEvent := u\<rparr>"
      by (cases "x = y") (simp_all add: v)
    then show "\<exists>u. E x = (objects s x)\<lparr>replacingEvent := u\<rparr>" by (rule exI)
  qed
  from 1 2 3 show ?case by blast
qed

lemma fetchEditsWhereNeeded_shape:
  "\<exists>E. fetchEditsWhereNeeded c rs s = s\<lparr>objects := E\<rparr>
       \<and> (\<forall>x. x \<notin> set rs \<longrightarrow> E x = objects s x)
       \<and> (\<forall>x. \<exists>v. E x = (objects s x)\<lparr>replacingEvent := v\<rparr>)"
proof -
  obtain E where E: "fold (fetchEdit c) (filter (isEncrypted s) rs) s = s\<lparr>objects := E\<rparr>"
    "\<forall>x. x \<notin> set (filter (isEncrypted s) rs) \<longrightarrow> E x = objects s x"
    "\<forall>x. \<exists>v. E x = (objects s x)\<lparr>replacingEvent := v\<rparr>"
    using fetchEdit_fold_shape by blast
  then show ?thesis unfolding fetchEditsWhereNeeded_def by auto
qed

text \<open>
  Claim C7: when the root-event fetch succeeds but the fetched event carries no
  aggregated-relation metadata for the thread relation type, \<open>initialise()\<close> raises no
  exception and leaves \<open>replyCount\<close>, \<open>lastEvent\<close>, \<open>rootEvent\<close> and the private
  timeline unchanged. Nothing is notified either, and every event object and payload
  that existed before the call is as it was: the call only allocates the fetched event.
\<close>

theorem C7_initialise_without_metadata:
  assumes fetched: "context_request c (threadId s) = Response (Some w)"
    and absent: "map_of (m_relations w) (name (THREAD_RELATION_TYPE s)) = None"
  shows "fst (initialiseThread c s) = None
       \<and> replyCount (snd (initialiseThread c s)) = replyCount s
       \<and> lastEvent (snd (initialiseThread c s)) = lastEvent s
       \<and> rootEvent (snd (initialiseThread c s)) = rootEvent s
       \<and> timeline (snd (initialiseThread c s)) = timeline s
       \<and> emitted (snd (initialiseThread c s)) = emitted s
       \<and> (\<forall>r < nextEvent s. objects (snd (initialiseThread c s)) r = objects s r)
       \<and> (\<forall>p < nextPayload s. payloads (snd (initialiseThread c s)) p = payloads s p)"
proof -
  define m where "m = nextEvent s"
  define s0 where "s0 = snd (mapper c w s)"
  define s1 where "s1 = fetchEditsWhereNeeded c [m] s0"
  define s2 where "s2 = setThread m (Some (threadId s1)) s1"
  have map: "mapper c w s = (m, s0)"
    by (simp add: m_def s0_def mapper_def)
  have load: "loadEvent c (threadId s) s = Inr (m, s1)"
    by (simp add: loadEvent_def fetched map s1_def)
  obtain E where E: "s1 = s0\<lparr>objects := E\<rparr>"
    "\<forall>x. x \<notin> set [m] \<longrightarrow> E x = objects s0 x"
    "\<forall>x. \<exists>v. E x = (objects s0 x)\<lparr>replacingEvent := v\<rparr>"
    unfolding s1_def using fetchEditsWhereNeeded_shape by blast
  obtain v where v: "E m = (objects s0 m)\<lparr>replacingEvent := v\<rparr>" using E(3) by blast
  have pm: "payload s2 m = w"
    by (simp add: s2_def payload_def E(1) v) (simp add: s0_def mapper_def m_def)
  have key: "name (THREAD_RELATION_TYPE s2) = name (THREAD_RELATION_TYPE s)"
    by (simp add: s2_def E(1) THREAD_RELATION_TYPE_def) (simp add: s0_def mapper_def)
  have none: "getServerAggregatedRelation s2 m (name (THREAD_RELATION_TYPE s2)) = None"
    by (simp add: getServerAggregatedRelation_def pm key absent)
  have res: "initialiseThread c s = (None, s2)"
    using none by (simp add: initialiseThread_def load Let_def s2_def)
  have old: "\<forall>r < nextEvent s. objects s2 r = objects s r"
  proof (intro allI impI)
    fix r assume "r < nextEvent s"
    then have "r \<noteq> m" by (simp add: m_def)
    then have "E r = objects s0 r" using E(2) by simp
    with \<open>r \<noteq> m\<close> show "objects s2 r = objects s r"
      by (simp add: s2_def setThread_def E(1)) (simp add: s0_def mapper_def m_def)
  qed
  have oldp: "\<forall>p < nextPayload s. payloads s2 p = payloads s p"
    by (simp add: s2_def E(1)) (simp add: s0_def mapper_def)
  have fields: "replyCount s2 = replyCount s" "lastEvent s2 = lastEvent s"
    "rootEvent s2 = rootEvent s" "timeline s2 = timeline s" "emitted s2 = emitted s"
    by (simp_all add: s2_def E(1)) (simp_all add: s0_def mapper_def)
  from res old oldp fields show ?thesis by simp
qed

theorem C7_initialise_without_metadata_witness:
  "context_request plain_server (threadId thread1) = Response (Some root_wire)
   \<and> map_of (m_relations root_wire) (name (THREAD_RELATION_TYPE thread1)) = None
   \<and> fst (initialiseThread plain_server thread1) = None
   \<and> replyCount (snd (initialiseThread plain_server thread1)) = 1
   \<and> lastEvent (snd (initialiseThread plain_server thread1)) = None
   \<and> rootEvent (snd (initialiseThread plain_server thread1)) = Some 0
   \<and> timeline (snd (initialiseThread plain_server thread1)) = [1]"
proof -
  have h1: "context_request plain_server (threadId thread1) = Response (Some root_wire)"
    by (simp add: plain_server_def)
  have h2: "map_of (m_relations root_wire) (name (THREAD_RELATION_TYPE thread1)) = None"
    by (simp add: root_wire_def)
  from C7_initialise_without_metadata [OF h1 h2] h1 h2
  show ?thesis by (simp add: thread1_fields)
qed

subsection \<open>Dissolution of a thread\<close>

lemma delete_relation_fields [simp]:
  "event_id (delete_relation k w) = event_id w"
  "sender (delete_relation k w) = sender w"
  "rel_type (delete_relation k w) = rel_type w"
  "encrypted (delete_relation k w) = encrypted w"
  by (cases w; simp)+

lemma delete_relation_lookup [simp]: "map_of (m_relations (delete_relation k w)) k = None"
  by (cases w) (auto simp: map_of_eq_None_iff)

lemma delete_relation_idem [simp]:
  "delete_relation k (delete_relation k w) = delete_relation k w"
  by (cases w) simp

lemma detachThreadEvent_unfold:
  "detachThreadEvent x s =
     s\<lparr>payloads := (payloads s)(event (objects s x) :=
          delete_relation (name (THREAD_RELATION_TYPE s)) (payloads s (event (objects s x)))),
       objects := (objects s)(x := (objects s x)\<lparr>thread := None\<rparr>)\<rparr>"
  by (simp add: detachThreadEvent_def setThread_def delete_aggregated_def payload_def)

lemma detach_fold_shape:
  "\<exists>P E. fold detachThreadEvent xs s = s\<lparr>payloads := P, objects := E\<rparr>
     \<and> (\<forall>x. E x = objects s x \<or> E x = (objects s x)\<lparr>thread := None\<rparr>)
     \<and> (\<forall>x \<in> set xs. thread (E x) = None)
     \<and> (\<forall>p. P p = payloads s p
            \<or> P p = delete_relation (name (THREAD_RELATION_TYPE s)) (payloads s p))"
proof (induction xs arbitrary: s)
  case Nil
  have "s = s\<lparr>payloads := payloads s, objects := objects s\<rparr>" by simp
  then show ?case by (intro exI [of _ "payloads s"] exI [of _ "objects s"]) simp
next
  case (Cons y ys)
  let ?k = "name (THREAD_RELATION_TYPE s)"
  let ?s1 = "detachThreadEvent y s"
  have k1: "name (THREAD_RELATION_TYPE ?s1) = ?k"
    by (simp add: detachThreadEvent_unfold THREAD_RELATION_TYPE_def)
  have e1: "objects ?s1 = (objects s)(y := (objects s y)\<lparr>thread := None\<rparr>)"
    by (simp add: detachThreadEvent_unfold)
  have p1: "payloads ?s1 = (payloads s)(event (objects s y) :=
              delete_relation ?k (payloads s (event (objects s y))))"
    by (simp add: detachThreadEvent_unfold)
  obtain P E where PE: "fold detachThreadEvent ys ?s1 = ?s1\<lparr>payloads := P, objects := E\<rparr>"
    "\<forall>x. E x = objects ?s1 x \<or> E x = (objects ?s1 x)\<lparr>thread := None\<rparr>"
    "\<forall>x \<in> set ys. thread (E x) = None"
    "\<forall>p. P p = payloads ?s1 p \<or> P p = delete_relation ?k (payloads ?s1 p)"
    using Cons.IH [of ?s1] unfolding k1 by blast
  have 1: "fold detachThreadEvent (y # ys) s = s\<lparr>payloads := P, objects := E\<rparr>"
    using PE(1) by (simp add: detachThreadEvent_unfold)
  have 2: "\<forall>x. E x = objects s x \<or> E x = (objects s x)\<lparr>thread := None\<rparr>"
  proof
    fix x
    from PE(2) have "E x = objects ?s1 x \<or> E x = (objects ?s1 x)\<lparr>thread := None\<rparr>" by blast
    then show "E x = objects s x \<or> E x = (objects s x)\<lparr>thread := None\<rparr>"
      by (cases "x = y") (auto simp: e1)
  qed
  have 3: "\<forall>x \<in> set (y # ys). thread (E x) = None"
  proof
    fix x assume "x \<in> set (y # ys)"
    then consider "x = y" | "x \<in> set ys" by auto
    then show "thread (E x) = None"
    proof cases
      case 1
      from PE(2) have "E y = objects ?s1 y \<or> E y = (objects ?s1 y)\<lparr>thread := None\<rparr>" by blast
      then show ?thesis using 1 by (auto simp: e1)
    next
      case 2
      then show ?thesis using PE(3) by blast
    qed
  qed
  have 4: "\<forall>p. P p = payloads s p \<or> P p = delete_relation ?k (payloads s p)"
  proof
    fix p
    from PE(4) have "P p = payloads ?s1 p \<or> P p = delete_relation ?k (payloads ?s1 p)" by blast
    then show "P p = payloads s p \<or> P p = delete_relation ?k (payloads s p)"
      by (cases "p = event (objects s y)") (auto simp: p1)
  qed
  from 1 2 3 4 show ?case by blast
qed

lemma room_addLiveEvent_unfold:
  "room_addLiveEvent r s =
     s\<lparr>room_liveTimeline :=
         (if getId s r \<in> getId s ` set (room_liveTimeline s)
          then room_liveTimeline s else room_liveTimeline s @ [r])\<rparr>"
  by (simp add: room_addLiveEvent_def find_None_image)

lemma getId_liveTimeline [simp]: "getId (s\<lparr>room_liveTimeline := L\<rparr>) = getId s"
  by (simp add: fun_eq_iff getId_def payload_def)

lemma addLiveEvents_shape:
  "\<exists>L. fold room_addLiveEvent xs s = s\<lparr>room_liveTimeline := L\<rparr>
     \<and> set (room_liveTimeline s) \<subseteq> set L
     \<and> (\<forall>x \<in> set xs. getId s x \<in> getId s ` set L)"
proof (induction xs arbitrary: s)
  case Nil
  have "s = s\<lparr>room_liveTimeline := room_liveTimeline s\<rparr>" by simp
  then show ?case by (intro exI [of _ "room_liveTimeline s"]) simp
next
  case (Cons y ys)
  define L1 where "L1 = (if getId s y \<in> getId s ` set (room_liveTimeline s)
          then room_liveTimeline s else room_liveTimeline s @ [y])"
  define s1 where "s1 = s\<lparr>room_liveTimeline := L1\<rparr>"
  have step: "room_addLiveEvent y s = s1"
    unfolding s1_def L1_def by (rule room_addLiveEvent_unfold)
  have sub1: "set (room_liveTimeline s) \<subseteq> set L1" by (auto simp: L1_def)
  have y1: "getId s y \<in> getId s ` set L1" by (auto simp: L1_def)
  have ids: "getId s1 = getId s" by (simp add: s1_def)
  have live: "room_liveTimeline s1 = L1" by (simp add: s1_def)
  obtain L where L: "fold room_addLiveEvent ys s1 = s1\<lparr>room_liveTimeline := L\<rparr>"
    "set (room_liveTimeline s1) \<subseteq> set L"
    "\<forall>x \<in> set ys. getId s1 x \<in> getId s1 ` set L"
    using Cons.IH [of s1] by blast
  have 1: "fold room_addLiveEvent (y # ys) s = s\<lparr>room_liveTimeline := L\<rparr>"
    by (simp add: step L(1)) (simp add: s1_def)
  have 2: "set (room_liveTimeline s) \<subseteq> set L" using sub1 L(2) live by blast
  have "getId s y \<in> getId s ` set L" using y1 L(2) live by blast
  then have 3: "\<forall>x \<in> set (y # ys). getId s x \<in> getId s ` set L"
    using L(3) ids by simp
  from 1 2 3 show ?case by blast
qed

text \<open>
  Claim C1: for a thread whose \<open>replyCount\<close> is 1, after \<open>onRedaction\<close> with an event
  whose recorded thread-root id is the thread's id, and with the root event resident in
  the room's live timeline: the thread is removed from the room's collection of threads,
  the root event has lost its thread association and its aggregated-relation entry for
  the thread relation type, every event of the private timeline has lost its thread
  association, and each of those events is in the room's live timeline (an event of
  its identifier is there; identifiers do not change).
\<close>

theorem C1_dissolution:
  assumes one: "replyCount s = 1"
    and mine: "threadRootId (objects s ev) = Some (threadId s)"
    and resident: "find (\<lambda>it. getId s it = threadId s) (room_liveTimeline s) = Some roomEvent"
  shows "threadId s \<notin> room_threads (onRedaction ev s)
       \<and> thread (objects (onRedaction ev s) roomEvent) = None
       \<and> getServerAggregatedRelation (onRedaction ev s) roomEvent
            (name (THREAD_RELATION_TYPE s)) = None
       \<and> (\<forall>x \<in> set (timeline s). thread (objects (onRedaction ev s) x) = None)
       \<and> (\<forall>x \<in> set (timeline s).
             getId (onRedaction ev s) x
               \<in> getId (onRedaction ev s) ` set (room_liveTimeline (onRedaction ev s)))
       \<and> (\<forall>x. getId (onRedaction ev s) x = getId s x)"
proof -
  let ?k = "name (THREAD_RELATION_TYPE s)"
  define s3 where "s3 = s\<lparr>replyCount := 0, room_threads := room_threads s - {threadId s}\<rparr>"
  define s6 where "s6 = (delete_aggregated roomEvent ?k (setThread roomEvent None s3))
                          \<lparr>rootEvent := Some roomEvent\<rparr>"
  define s7 where "s7 = fold detachThreadEvent (timeline s6) s6"
  define s8 where "s8 = s7\<lparr>room_threadsTimelineSets :=
                            map (removeEvent s7 (threadId s7)) (room_threadsTimelineSets s7)\<rparr>"
  define s9 where "s9 = room_addLiveEvents (timeline s8) s8"
  have ids3: "getId s3 = getId s"
    by (simp add: fun_eq_iff s3_def getId_def payload_def)
  have found: "findRoomEvent s3 = Some roomEvent"
    using resident by (simp add: findRoomEvent_def room_getTimelineForEvent_def ids3) (simp add: s3_def)
  have k4: "name (THREAD_RELATION_TYPE (setThread roomEvent None s3)) = ?k"
    by (simp add: THREAD_RELATION_TYPE_def s3_def)
  have result: "onRedaction ev s = emit Thread_Update (emit Room_TimelineRefresh_room s9)"
    unfolding s9_def s8_def s7_def s6_def
    using one mine found [unfolded s3_def]
    by (simp add: onRedaction_def Let_def THREAD_RELATION_TYPE_def s3_def)
  have k6: "name (THREAD_RELATION_TYPE s6) = ?k"
    by (simp add: THREAD_RELATION_TYPE_def s6_def delete_aggregated_def s3_def)
  have tl6: "timeline s6 = timeline s"
    by (simp add: s6_def delete_aggregated_def s3_def)
  have e6: "objects s6 = (objects s)(roomEvent := (objects s roomEvent)\<lparr>thread := None\<rparr>)"
    by (simp add: s6_def delete_aggregated_def setThread_def s3_def)
  have p6: "payloads s6 = (payloads s)(event (objects s roomEvent) :=
              delete_relation ?k (payloads s (event (objects s roomEvent))))"
    by (simp add: s6_def delete_aggregated_def payload_def setThread_def s3_def)
  obtain P E where PE: "s7 = s6\<lparr>payloads := P, objects := E\<rparr>"
    "\<forall>x. E x = objects s6 x \<or> E x = (objects s6 x)\<lparr>thread := None\<rparr>"
    "\<forall>x \<in> set (timeline s6). thread (E x) = None"
    "\<forall>p. P p = payloads s6 p \<or> P p = delete_relation ?k (payloads s6 p)"
    unfolding s7_def using detach_fold_shape [of "timeline s6" s6] unfolding k6 by blast
  have tl8: "timeline s8 = timeline s"
    by (simp add: s8_def PE(1) tl6)
  obtain L where L: "s9 = s8\<lparr>room_liveTimeline := L\<rparr>"
    "\<forall>x \<in> set (timeline s8). getId s8 x \<in> getId s8 ` set L"
    unfolding s9_def room_addLiveEvents_def using addLiveEvents_shape [of "timeline s8" s8] by blast
  let ?s' = "onRedaction ev s"
  have ev': "objects ?s' = E"
    by (simp add: result emit_def L(1) s8_def PE(1))
  have pl': "payloads ?s' = P"
    by (simp add: result emit_def L(1) s8_def PE(1))
  have live': "room_liveTimeline ?s' = L"
    by (simp add: result emit_def L(1))
  have Eev: "event (E x) = event (objects s x)" for x
    using PE(2) [rule_format, of x] by (auto simp: e6)
  have Pid: "event_id (P p) = event_id (payloads s p)" for p
    using PE(4) [rule_format, of p] by (auto simp: p6)
  have ids': "getId ?s' x = getId s x" for x
    by (simp add: getId_def payload_def ev' pl' Eev Pid)
  have ids8: "getId s8 x = getId s x" for x
    by (simp add: getId_def payload_def s8_def PE(1) Eev Pid)
  have c1: "threadId s \<notin> room_threads ?s'"
    by (simp add: result emit_def L(1) s8_def PE(1) s6_def delete_aggregated_def setThread_def
          s3_def)
  have c2: "thread (objects ?s' roomEvent) = None"
    using PE(2) [rule_format, of roomEvent] by (auto simp: ev' e6)
  have c3: "getServerAggregatedRelation ?s' roomEvent ?k = None"
    using PE(4) [rule_format, of "event (objects s roomEvent)"]
    by (auto simp: getServerAggregatedRelation_def payload_def ev' pl' Eev p6)
  have c4: "\<forall>x \<in> set (timeline s). thread (objects ?s' x) = None"
    using PE(3) by (simp add: ev' tl6)
  have c5: "\<forall>x \<in> set (timeline s). getId ?s' x \<in> getId ?s' ` set (room_liveTimeline ?s')"
  proof
    fix x assume "x \<in> set (timeline s)"
    then have "getId s8 x \<in> getId s8 ` set L" using L(2) tl8 by simp
    then show "getId ?s' x \<in> getId ?s' ` set (room_liveTimeline ?s')"
      by (simp add: live' ids' ids8 image_def)
  qed
  from c1 c2 c3 c4 c5 ids' show ?thesis by blast
qed

theorem C1_dissolution_witness:
  "replyCount thread1 = 1
   \<and> threadRootId (objects thread1 1) = Some (threadId thread1)
   \<and> find (\<lambda>it. getId thread1 it = threadId thread1) (room_liveTimeline thread1) = Some 0
   \<and> threadId thread1 \<notin> room_threads (onRedaction 1 thread1)
   \<and> thread (objects (onRedaction 1 thread1) 0) = None
   \<and> thread (objects (onRedaction 1 thread1) 1) = None
   \<and> getId (onRedaction 1 thread1) 1
        \<in> getId (onRedaction 1 thread1) ` set (room_liveTimeline (onRedaction 1 thread1))"
proof -
  have h1: "replyCount thread1 = 1" by (simp add: thread1_fields)
  have h2: "threadRootId (objects thread1 1) = Some (threadId thread1)"
    by (simp add: thread1_fields thread0_heap)
  have h3: "find (\<lambda>it. getId thread1 it = threadId thread1) (room_liveTimeline thread1) = Some 0"
    by (simp add: thread1_fields thread0_heap read_defs root_wire_def)
  have tl: "1 \<in> set (timeline thread1)" by (simp add: thread1_fields)
  from C1_dissolution [OF h1 h2 h3] h1 h2 h3 tl show ?thesis by blast
qed

subsection \<open>Participation of the current user\<close>

lemma participated_mapper [simp]:
  "currentUserParticipated (snd (mapper c w s)) = currentUserParticipated s"
  by (simp add: mapper_def)

lemma participated_fetchEdits [simp]:
  "currentUserParticipated (fetchEditsWhereNeeded c rs s) = currentUserParticipated s"
proof -
  obtain E where "fetchEditsWhereNeeded c rs s = s\<lparr>objects := E\<rparr>"
    using fetchEditsWhereNeeded_shape by blast
  then show ?thesis by simp
qed

lemma participated_replaceRootEvent [simp]:
  "currentUserParticipated (replaceRootEvent a b s) = currentUserParticipated s"
  by (simp add: replaceRootEvent_def)

lemma participated_emit [simp]:
  "currentUserParticipated (emit n s) = currentUserParticipated s"
  by (simp add: emit_def)

lemma participated_delete_aggregated [simp]:
  "currentUserParticipated (delete_aggregated r k s) = currentUserParticipated s"
  by (simp add: delete_aggregated_def)

lemma participated_detach [simp]:
  "currentUserParticipated (fold detachThreadEvent xs s) = currentUserParticipated s"
proof -
  obtain P E where "fold detachThreadEvent xs s = s\<lparr>payloads := P, objects := E\<rparr>"
    using detach_fold_shape by blast
  then show ?thesis by simp
qed

lemma participated_addLiveEvents [simp]:
  "currentUserParticipated (room_addLiveEvents xs s) = currentUserParticipated s"
proof -
  obtain L where "fold room_addLiveEvent xs s = s\<lparr>room_liveTimeline := L\<rparr>"
    using addLiveEvents_shape by blast
  then show ?thesis by (simp add: room_addLiveEvents_def)
qed

lemma participated_initialiseThread [simp]:
  "currentUserParticipated (snd (initialiseThread c s)) = currentUserParticipated s"
  by (simp add: initialiseThread_def loadEvent_def Let_def case_prod_beta
        split: context_result.splits option.splits sum.splits)

lemma participated_onEcho [simp]:
  "currentUserParticipated (snd (onEcho c r s)) = currentUserParticipated s"
proof -
  have "currentUserParticipated (snd (case initialiseThread c s of
           (Some e, s1) \<Rightarrow> (Some e, s1)
         | (None, s1) \<Rightarrow> (None, emit (Thread_NewReply r) s1))) = currentUserParticipated s"
    using participated_initialiseThread [of c s]
    by (cases "initialiseThread c s") (auto split: option.splits)
  then show ?thesis by (simp add: onEcho_def)
qed

lemma participated_onRedaction [simp]:
  "currentUserParticipated (onRedaction ev s) = currentUserParticipated s"
  by (simp add: onRedaction_def Let_def split: option.splits)

lemma participated_addEvents:
  "currentUserParticipated s \<Longrightarrow>
   currentUserParticipated (fold (\<lambda>ev. addEvent ev b False) rs s)"
  by (induction rs arbitrary: s) (simp_all add: addEvent_participated)

lemma participated_step:
  "currentUserParticipated s \<Longrightarrow> currentUserParticipated (step op s)"
  by (cases op)
     (simp_all add: addEvent_participated addEvents_def participated_addEvents
        onBeforeRedaction_def setServerSideSupport_def setServerSideListSupport_def Let_def)

lemma participated_run:
  "currentUserParticipated s \<Longrightarrow> currentUserParticipated (run ops s)"
  unfolding run_def by (induction ops arbitrary: s) (simp_all add: participated_step)

text \<open>
  Claim C9: \<open>currentUserParticipated\<close> turns from false to true when the first event
  whose sender equals the local user is passed to \<open>addEvent\<close> (an event of another
  sender leaves it false), and no operation, redaction included, ever turns it back to
  false.
\<close>

theorem C9_participation_monotonic:
  "(sentByCurrentUser s r \<longrightarrow> currentUserParticipated (addEvent r b e s))
   \<and> (\<not> currentUserParticipated s \<and> \<not> sentByCurrentUser s r
        \<longrightarrow> \<not> currentUserParticipated (addEvent r b e s))
   \<and> (currentUserParticipated s \<longrightarrow> currentUserParticipated (run ops s))"
  by (simp add: addEvent_participated participated_run)

theorem C9_participation_monotonic_witness:
  "sentByCurrentUser thread0 1
   \<and> currentUserParticipated (addEvent 1 False True thread0)
   \<and> \<not> currentUserParticipated thread0 \<and> \<not> sentByCurrentUser thread0 0
   \<and> \<not> currentUserParticipated (addEvent 0 False True thread0)
   \<and> currentUserParticipated thread1
   \<and> currentUserParticipated
        (run [OnRedaction 1, Initialise bundling_server, SetServerSideSupport Stable,
              AddEvents [2, 3] False, OnEcho plain_server 2] thread1)"
proof -
  have h1: "sentByCurrentUser thread0 1"
    by (simp add: sentByCurrentUser_def read_defs thread0_fields thread0_heap reply_wire_def)
  have h2: "\<not> currentUserParticipated thread0 \<and> \<not> sentByCurrentUser thread0 0"
    by (simp add: sentByCurrentUser_def read_defs thread0_fields thread0_heap root_wire_def)
  have h3: "currentUserParticipated thread1" by (simp add: thread1_fields)
  from C9_participation_monotonic [of thread0 1 False True "[]"]
    C9_participation_monotonic [of thread0 0 False True "[]"]
    C9_participation_monotonic [of thread1 0 False True
      "[OnRedaction 1, Initialise bundling_server, SetServerSideSupport Stable,
        AddEvents [2, 3] False, OnEcho plain_server 2]"]
    h1 h2 h3
  show ?thesis by blast
qed

end
